theory Spec2Isabelle
  imports Complex_Main
begin

section \<open>Values exchanged with the remote services\<close>

text \<open>
  The program reads every response with \<^verbatim>\<open>res.json()\<close>, so the values it works on are
  parsed JSON documents. Python's \<^verbatim>\<open>None\<close> is \<open>JNull\<close>. A JSON number (a Python int or
  float) is the rational it denotes: the rounding of binary floating point, NaN and the
  infinities are not represented. An object is an association list with one entry per key.
\<close>

datatype json =
    JNull
  | JBool bool
  | JNum rat
  | JStr string
  | JArr "json list"
  | JObj "(string \<times> json) list"

text \<open>The operations of the modelled code that raise \<^verbatim>\<open>TypeError\<close> on an operand.\<close>

datatype py_op = Iterate | Contains | AddTo | CompareGe | Subscript

text \<open>
  The exceptions the modelled code can raise; all are subclasses of \<^verbatim>\<open>Exception\<close>. Each
  holds what its message is made from: the value that has no \<^verbatim>\<open>get\<close> method, the operation
  and the operand it does not apply to, the empty sequence that was indexed, the description
  the HTTP client gives of a transport failure. The text of a body that is not JSON is not
  modelled, so the decoding failure holds nothing.
\<close>

datatype py_error =
    AttributeError json
  | TypeError py_op json
  | KeyError
  | IndexError json
  | JSONDecodeError
  | TransportError string

text \<open>Python truthiness, as used by \<^verbatim>\<open>if x\<close>, \<^verbatim>\<open>not x\<close> and \<^verbatim>\<open>x or y\<close>.\<close>

fun truthy :: "json \<Rightarrow> bool" where
  "truthy JNull = False"
| "truthy (JBool b) = b"
| "truthy (JNum r) = (r \<noteq> 0)"
| "truthy (JStr s) = (s \<noteq> [])"
| "truthy (JArr xs) = (xs \<noteq> [])"
| "truthy (JObj kvs) = (kvs \<noteq> [])"

text \<open>\<^verbatim>\<open>x or y\<close>.\<close>

definition py_or :: "json \<Rightarrow> json \<Rightarrow> json" where
  "py_or x y = (if truthy x then x else y)"

text \<open>\<^verbatim>\<open>d.get(k, default)\<close>: only a dict has the method.\<close>

fun py_get :: "json \<Rightarrow> string \<Rightarrow> json \<Rightarrow> py_error + json" where
  "py_get (JObj kvs) k d = Inr (case map_of kvs k of None \<Rightarrow> d | Some v \<Rightarrow> v)"
| "py_get v k d = Inl (AttributeError v)"

text \<open>\<^verbatim>\<open>for x in v\<close>: a list gives its elements, a string its characters, a dict its keys.\<close>

fun py_iter :: "json \<Rightarrow> py_error + json list" where
  "py_iter (JArr xs) = Inr xs"
| "py_iter (JStr s) = Inr (map (\<lambda>c. JStr [c]) s)"
| "py_iter (JObj kvs) = Inr (map (\<lambda>kv. JStr (fst kv)) kvs)"
| "py_iter v = Inl (TypeError Iterate v)"

fun is_substring :: "string \<Rightarrow> string \<Rightarrow> bool" where
  "is_substring needle [] = (needle = [])"
| "is_substring needle (c # cs) =
     (take (length needle) (c # cs) = needle \<or> is_substring needle cs)"

text \<open>\<^verbatim>\<open>s in v\<close> for a string \<open>s\<close>: membership in a list, substring of a string, key of a dict.\<close>

fun py_contains :: "string \<Rightarrow> json \<Rightarrow> py_error + bool" where
  "py_contains s (JArr xs) = Inr (JStr s \<in> set xs)"
| "py_contains s (JStr t) = Inr (is_substring s t)"
| "py_contains s (JObj kvs) = Inr (s \<in> fst ` set kvs)"
| "py_contains s v = Inl (TypeError Contains v)"

text \<open>\<^verbatim>\<open>total += v\<close> for a float \<open>total\<close>: numbers and booleans add, anything else raises.\<close>

fun py_add :: "rat \<Rightarrow> json \<Rightarrow> py_error + rat" where
  "py_add t (JNum r) = Inr (t + r)"
| "py_add t (JBool b) = Inr (t + (if b then 1 else 0))"
| "py_add t v = Inl (TypeError AddTo v)"

text \<open>\<^verbatim>\<open>n >= v\<close> for an int \<open>n\<close>.\<close>

fun py_ge :: "int \<Rightarrow> json \<Rightarrow> py_error + bool" where
  "py_ge n (JNum r) = Inr (r \<le> of_int n)"
| "py_ge n (JBool b) = Inr ((if b then 1 else 0) \<le> n)"
| "py_ge n v = Inl (TypeError CompareGe v)"

text \<open>\<^verbatim>\<open>round(x, 2)\<close>: to the nearest hundredth, ties to the even one.\<close>

definition round2 :: "rat \<Rightarrow> rat" where
  "round2 x =
     (let y = x * 100; f = \<lfloor>y\<rfloor>; d = y - of_int f
      in of_int (if d < 1 / 2 then f else if 1 / 2 < d then f + 1
                 else if even f then f else f + 1) / 100)"

section \<open>The HTTP client\<close>

text \<open>
  One constructor per call the program makes, holding the fields it sends:
  \<^item> \<open>AuthPost client_id client_secret refresh_token\<close>: POST to the token endpoint;
  \<^item> \<open>OrdersGet seller date_from date_to limit offset access_token\<close>: GET of one page of
    the order search, with the bearer token;
  \<^item> \<open>TokensGet account_name\<close>: GET of the \<^verbatim>\<open>meli_tokens\<close> row of an account;
  \<^item> \<open>TokensPost account_name refresh_token updated_at access\<close>: the merging POST to
    \<^verbatim>\<open>meli_tokens\<close>; \<open>access\<close> holds the access token and its expiry when they are sent;
  \<^item> \<open>FaturamentoPost empresa data valor\<close>: the merging POST to \<^verbatim>\<open>faturamento\<close>.
\<close>

datatype request =
    AuthPost string string json
  | OrdersGet string string string int int json
  | TokensGet string
  | TokensPost string json string "(json \<times> string) option"
  | FaturamentoPost string string rat

text \<open>A response: its status and its body as \<^verbatim>\<open>res.json()\<close> parses it (\<open>None\<close>: not JSON).\<close>

record response =
  status_code :: int
  body :: "json option"

text \<open>
  The remote side answers a request, given the requests made before it, with a response
  or with a transport failure. The program's calls are logged in order.
\<close>

type_synonym net = "request list \<Rightarrow> request \<Rightarrow> py_error + response"

definition send :: "net \<Rightarrow> request \<Rightarrow> request list \<Rightarrow> (py_error + response) \<times> request list" where
  "send nt rq tr = (nt tr rq, tr @ [rq])"

definition res_json :: "response \<Rightarrow> py_error + json" where
  "res_json res = (case body res of None \<Rightarrow> Inl JSONDecodeError | Some v \<Rightarrow> Inr v)"

text \<open>
  The clock, read after a given number of calls: the ISO timestamp of now, of now plus
  six hours, and today's date, all in UTC-3.
\<close>

record clock =
  now_iso :: "nat \<Rightarrow> string"
  expiry_iso :: "nat \<Rightarrow> string"
  today :: "nat \<Rightarrow> string"

section \<open>Accounts and token persistence\<close>

record account =
  name :: string
  empresa :: string
  app_id :: string
  secret_key :: string
  refresh_token :: json
  user_id :: string

text \<open>\<^verbatim>\<open>rows[0]\<close>.\<close>

fun first_row :: "json \<Rightarrow> py_error + json" where
  "first_row (JArr (x # xs)) = Inr x"
| "first_row (JArr []) = Inl (IndexError (JArr []))"
| "first_row (JStr (c # cs)) = Inr (JStr [c])"
| "first_row (JStr []) = Inl (IndexError (JStr []))"
| "first_row (JObj kvs) = Inl KeyError"
| "first_row v = Inl (TypeError Subscript v)"

definition load_token_from_db ::
  "net \<Rightarrow> string \<Rightarrow> request list \<Rightarrow> (py_error + json) \<times> request list" where
  "load_token_from_db nt account_name tr =
     (case send nt (TokensGet account_name) tr of
        (Inl e, tr') \<Rightarrow> (Inl e, tr')
      | (Inr res, tr') \<Rightarrow>
          if status_code res = 200 then
            (case res_json res of
               Inl e \<Rightarrow> (Inl e, tr')
             | Inr rows \<Rightarrow>
                 if \<not> truthy rows then (Inr JNull, tr')
                 else (case first_row rows of
                         Inl e \<Rightarrow> (Inl e, tr')
                       | Inr row \<Rightarrow>
                           (case py_get row ''refresh_token'' JNull of
                              Inl e \<Rightarrow> (Inl e, tr')
                            | Inr v \<Rightarrow> if truthy v then (Inr v, tr') else (Inr JNull, tr'))))
          else (Inr JNull, tr'))"

definition save_request :: "clock \<Rightarrow> string \<Rightarrow> json \<Rightarrow> json \<Rightarrow> nat \<Rightarrow> request" where
  "save_request clk account_name new_refresh access_token n =
     TokensPost account_name new_refresh (now_iso clk n)
       (if truthy access_token then Some (access_token, expiry_iso clk n) else None)"

definition save_token_to_db ::
  "net \<Rightarrow> clock \<Rightarrow> string \<Rightarrow> json \<Rightarrow> json \<Rightarrow> request list \<Rightarrow> (py_error + unit) \<times> request list" where
  "save_token_to_db nt clk account_name new_refresh access_token tr =
     (case send nt (save_request clk account_name new_refresh access_token (length tr)) tr of
        (Inl e, tr') \<Rightarrow> (Inl e, tr')
      | (Inr res, tr') \<Rightarrow> (Inr (), tr'))"

fun load_all_tokens ::
  "net \<Rightarrow> account list \<Rightarrow> request list \<Rightarrow> (py_error + unit) \<times> account list \<times> request list" where
  "load_all_tokens nt [] tr = (Inr (), [], tr)"
| "load_all_tokens nt (a # rest) tr =
     (case load_token_from_db nt (name a) tr of
        (Inl e, tr') \<Rightarrow> (Inl e, a # rest, tr')
      | (Inr db_token, tr') \<Rightarrow>
          (let a' = (if truthy db_token then a\<lparr>refresh_token := db_token\<rparr> else a)
           in case load_all_tokens nt rest tr' of
                (r, rest', tr'') \<Rightarrow> (r, a' # rest', tr'')))"

section \<open>The marketplace API\<close>

definition auth_request :: "account \<Rightarrow> request" where
  "auth_request a = AuthPost (app_id a) (secret_key a) (refresh_token a)"

definition get_access_token ::
  "net \<Rightarrow> clock \<Rightarrow> account \<Rightarrow> request list \<Rightarrow> (py_error + json) \<times> account \<times> request list" where
  "get_access_token nt clk a tr =
     (case send nt (auth_request a) tr of
        (Inl e, tr') \<Rightarrow> (Inl e, a, tr')
      | (Inr res, tr') \<Rightarrow>
          if status_code res \<noteq> 200 then (Inr JNull, a, tr')
          else
            (case res_json res of
               Inl e \<Rightarrow> (Inl e, a, tr')
             | Inr data \<Rightarrow>
                 (case py_get data ''access_token'' JNull of
                    Inl e \<Rightarrow> (Inl e, a, tr')
                  | Inr access_token \<Rightarrow>
                      (case py_get data ''refresh_token'' JNull of
                         Inl e \<Rightarrow> (Inl e, a, tr')
                       | Inr new_refresh \<Rightarrow>
                           if truthy new_refresh then
                             (let a' = a\<lparr>refresh_token := new_refresh\<rparr>
                              in case save_token_to_db nt clk (name a') new_refresh access_token tr' of
                                   (Inl e, tr'') \<Rightarrow> (Inl e, a', tr'')
                                 | (Inr u, tr'') \<Rightarrow> (Inr access_token, a', tr''))
                           else (Inr access_token, a, tr')))))"

text \<open>The running totals of the aggregation: the sum, the orders counted, the orders skipped.\<close>

type_synonym totals = "rat \<times> int \<times> int"

text \<open>The body of the loop over the orders of a page.\<close>

definition order_step :: "totals \<Rightarrow> json \<Rightarrow> py_error + totals" where
  "order_step acc order =
     (case acc of (total_valor, order_count, fraud_count) \<Rightarrow>
        (case py_get order ''tags'' JNull of
           Inl e \<Rightarrow> Inl e
         | Inr tags \<Rightarrow>
             (case py_contains ''fraud_risk_detected'' (py_or tags (JArr [])) of
                Inl e \<Rightarrow> Inl e
              | Inr fraud \<Rightarrow>
                  if fraud then Inr (total_valor, order_count, fraud_count + 1)
                  else
                    (case py_get order ''paid_amount'' (JNum 0) of
                       Inl e \<Rightarrow> Inl e
                     | Inr paid \<Rightarrow>
                         (case (if truthy paid then Inr paid
                                else py_get order ''total_amount'' (JNum 0)) of
                            Inl e \<Rightarrow> Inl e
                          | Inr amount \<Rightarrow>
                              (case py_add total_valor amount of
                                 Inl e \<Rightarrow> Inl e
                               | Inr t \<Rightarrow> Inr (t, order_count + 1, fraud_count)))))))"

fun process_orders :: "json list \<Rightarrow> totals \<Rightarrow> py_error + totals" where
  "process_orders [] acc = Inr acc"
| "process_orders (order # rest) acc =
     (case order_step acc order of
        Inl e \<Rightarrow> Inl e
      | Inr acc' \<Rightarrow> process_orders rest acc')"

text \<open>\<^verbatim>\<open>data.get("paging", {}).get("total", 0)\<close>.\<close>

definition total_results_of :: "json \<Rightarrow> py_error + json" where
  "total_results_of data =
     (case py_get data ''paging'' (JObj []) of
        Inl e \<Rightarrow> Inl e
      | Inr paging \<Rightarrow> py_get paging ''total'' (JNum 0))"

text \<open>What one successful page does to the totals, and the total it reports.\<close>

definition page_step :: "json \<Rightarrow> totals \<Rightarrow> py_error + totals \<times> json" where
  "page_step data acc =
     (case py_get data ''results'' (JArr []) of
        Inl e \<Rightarrow> Inl e
      | Inr results \<Rightarrow>
          (case py_iter results of
             Inl e \<Rightarrow> Inl e
           | Inr orders \<Rightarrow>
               (case process_orders orders acc of
                  Inl e \<Rightarrow> Inl e
                | Inr acc' \<Rightarrow>
                    (case total_results_of data of
                       Inl e \<Rightarrow> Inl e
                     | Inr total_results \<Rightarrow> Inr (acc', total_results)))))"

definition orders_request :: "account \<Rightarrow> json \<Rightarrow> string \<Rightarrow> int \<Rightarrow> request" where
  "orders_request a access_token date_str offset =
     OrdersGet (user_id a) (date_str @ ''T00:00:00.000-03:00'')
       (date_str @ ''T23:59:59.999-03:00'') 50 offset access_token"

text \<open>The \<^verbatim>\<open>while True\<close> loop, from a given offset on.\<close>

function fetch_loop ::
  "net \<Rightarrow> account \<Rightarrow> json \<Rightarrow> string \<Rightarrow> totals \<Rightarrow> int \<Rightarrow> request list
     \<Rightarrow> (py_error + totals) \<times> request list" where
  "fetch_loop nt a access_token date_str acc offset tr =
     (case send nt (orders_request a access_token date_str offset) tr of
        (Inl e, tr') \<Rightarrow> (Inl e, tr')
      | (Inr res, tr') \<Rightarrow>
          if status_code res \<noteq> 200 then (Inr acc, tr')
          else
            (case res_json res of
               Inl e \<Rightarrow> (Inl e, tr')
             | Inr data \<Rightarrow>
                 (case page_step data acc of
                    Inl e \<Rightarrow> (Inl e, tr')
                  | Inr (acc', total_results) \<Rightarrow>
                      (case py_ge (offset + 50) total_results of
                         Inl e \<Rightarrow> (Inl e, tr')
                       | Inr reached \<Rightarrow>
                           if reached \<or> offset + 50 > 500 then (Inr acc', tr')
                           else fetch_loop nt a access_token date_str acc' (offset + 50) tr'))))"
  by pat_completeness auto
termination
  by (relation "measure (\<lambda>(nt, a, access_token, date_str, acc, offset, tr). nat (551 - offset))") auto

declare fetch_loop.simps [simp del]

record order_totals =
  valor :: rat
  order_count :: int
  fraud_skipped :: int

definition fetch_paid_orders_total ::
  "net \<Rightarrow> account \<Rightarrow> json \<Rightarrow> string \<Rightarrow> request list \<Rightarrow> (py_error + order_totals) \<times> request list" where
  "fetch_paid_orders_total nt a access_token date_str tr =
     (case fetch_loop nt a access_token date_str (0, 0, 0) 0 tr of
        (Inl e, tr') \<Rightarrow> (Inl e, tr')
      | (Inr (total_valor, n_orders, n_fraud), tr') \<Rightarrow>
          (Inr \<lparr>valor = round2 total_valor, order_count = n_orders, fraud_skipped = n_fraud\<rparr>, tr'))"

section \<open>The ledger upsert\<close>

definition upsert_faturamento ::
  "net \<Rightarrow> string \<Rightarrow> string \<Rightarrow> rat \<Rightarrow> request list \<Rightarrow> (py_error + bool) \<times> request list" where
  "upsert_faturamento nt emp date_str v tr =
     (case send nt (FaturamentoPost emp date_str v) tr of
        (Inl e, tr') \<Rightarrow> (Inl e, tr')
      | (Inr res, tr') \<Rightarrow> (Inr (200 \<le> status_code res \<and> status_code res < 300), tr'))"

section \<open>The sync orchestrator\<close>

text \<open>
  One record of the run's outcome list. The keys a record does not carry are \<open>None\<close>.
\<close>

record outcome =
  o_empresa :: string
  o_date :: string
  o_valor :: "rat option"
  o_orders :: "int option"
  o_fraud_skipped :: "int option"
  o_status :: string
  o_error :: "string option"

definition token_error_outcome :: "account \<Rightarrow> string \<Rightarrow> outcome" where
  "token_error_outcome a date_str =
     \<lparr>o_empresa = empresa a, o_date = date_str, o_valor = None, o_orders = None,
      o_fraud_skipped = None, o_status = ''token_error'', o_error = None\<rparr>"

definition data_outcome :: "account \<Rightarrow> string \<Rightarrow> order_totals \<Rightarrow> string \<Rightarrow> outcome" where
  "data_outcome a date_str d st =
     \<lparr>o_empresa = empresa a, o_date = date_str, o_valor = Some (valor d),
      o_orders = Some (order_count d), o_fraud_skipped = Some (fraud_skipped d),
      o_status = st, o_error = None\<rparr>"

text \<open>
  Python's \<^verbatim>\<open>str\<close> on an exception gives its message. For a transport failure that is the
  description the HTTP client gave. The messages of the exceptions the interpreter and the
  JSON decoder raise are worded by them, not by the program: the orchestrator takes that
  wording as a parameter.
\<close>

type_synonym messages = "py_error \<Rightarrow> string"

definition py_str :: "messages \<Rightarrow> py_error \<Rightarrow> string" where
  "py_str wording e = (case e of TransportError m \<Rightarrow> m | _ \<Rightarrow> wording e)"

definition error_outcome :: "messages \<Rightarrow> account \<Rightarrow> string \<Rightarrow> py_error \<Rightarrow> outcome" where
  "error_outcome wording a date_str e =
     \<lparr>o_empresa = empresa a, o_date = date_str, o_valor = None, o_orders = None,
      o_fraud_skipped = None, o_status = ''error'', o_error = Some (py_str wording e)\<rparr>"

text \<open>The body of the \<^verbatim>\<open>try\<close> block for one account.\<close>

definition process_account ::
  "net \<Rightarrow> clock \<Rightarrow> string \<Rightarrow> account \<Rightarrow> request list
     \<Rightarrow> (py_error + outcome) \<times> account \<times> request list" where
  "process_account nt clk date_str a tr =
     (case get_access_token nt clk a tr of
        (Inl e, a', tr1) \<Rightarrow> (Inl e, a', tr1)
      | (Inr token, a', tr1) \<Rightarrow>
          if \<not> truthy token then (Inr (token_error_outcome a' date_str), a', tr1)
          else
            (case fetch_paid_orders_total nt a' token date_str tr1 of
               (Inl e, tr2) \<Rightarrow> (Inl e, a', tr2)
             | (Inr d, tr2) \<Rightarrow>
                 if valor d > 0 then
                   (case upsert_faturamento nt (empresa a') date_str (valor d) tr2 of
                      (Inl e, tr3) \<Rightarrow> (Inl e, a', tr3)
                    | (Inr ok, tr3) \<Rightarrow>
                        (Inr (data_outcome a' date_str d
                                (if ok then ''synced'' else ''upsert_error'')),
                         a', tr3))
                 else (Inr (data_outcome a' date_str d ''no_sales''), a', tr2)))"

text \<open>The \<^verbatim>\<open>try\<close> block with its \<^verbatim>\<open>except Exception\<close> handler.\<close>

definition sync_account ::
  "messages \<Rightarrow> net \<Rightarrow> clock \<Rightarrow> string \<Rightarrow> account \<Rightarrow> request list
     \<Rightarrow> outcome \<times> account \<times> request list" where
  "sync_account wording nt clk date_str a tr =
     (case process_account nt clk date_str a tr of
        (Inl e, a', tr') \<Rightarrow> (error_outcome wording a' date_str e, a', tr')
      | (Inr r, a', tr') \<Rightarrow> (r, a', tr'))"

text \<open>The loop over the accounts: the outcome list, the accounts as left, the calls made.\<close>

fun sync_accounts ::
  "messages \<Rightarrow> net \<Rightarrow> clock \<Rightarrow> string \<Rightarrow> account list \<Rightarrow> request list
     \<Rightarrow> outcome list \<times> account list \<times> request list" where
  "sync_accounts wording nt clk date_str [] tr = ([], [], tr)"
| "sync_accounts wording nt clk date_str (a # rest) tr =
     (case sync_account wording nt clk date_str a tr of
        (r, a', tr') \<Rightarrow>
          (case sync_accounts wording nt clk date_str rest tr' of
             (rs, rest', tr'') \<Rightarrow> (r # rs, a' # rest', tr'')))"

text \<open>The module's globals.\<close>

record app_state =
  ACCOUNTS :: "account list"
  last_sync :: "string option"
  last_results :: "outcome list"

definition sync_all ::
  "messages \<Rightarrow> net \<Rightarrow> clock \<Rightarrow> app_state \<Rightarrow> request list
     \<Rightarrow> outcome list \<times> app_state \<times> request list" where
  "sync_all wording nt clk st tr =
     (case sync_accounts wording nt clk (today clk (length tr)) (ACCOUNTS st) tr of
        (results, accounts', tr') \<Rightarrow>
          (results,
           \<lparr>ACCOUNTS = accounts', last_sync = Some (now_iso clk (length tr)),
            last_results = results\<rparr>,
           tr'))"

section \<open>Classifying the calls\<close>

text \<open>
  The credential store changes only through the merging POST to \<^verbatim>\<open>meli_tokens\<close>, the
  ledger only through the merging POST to \<^verbatim>\<open>faturamento\<close>.
\<close>

definition is_save :: "request \<Rightarrow> bool" where
  "is_save rq = (case rq of TokensPost n r u x \<Rightarrow> True | _ \<Rightarrow> False)"

definition is_orders :: "request \<Rightarrow> bool" where
  "is_orders rq = (case rq of OrdersGet s f t l off tok \<Rightarrow> True | _ \<Rightarrow> False)"

definition is_upsert :: "request \<Rightarrow> bool" where
  "is_upsert rq = (case rq of FaturamentoPost e d v \<Rightarrow> True | _ \<Rightarrow> False)"

section \<open>Example inputs\<close>

definition example_account :: account where
  "example_account =
     \<lparr>name = ''LOJA'', empresa = ''Loja'', app_id = ''1001'', secret_key = ''s3cr3t'',
      refresh_token = JStr ''RT0'', user_id = ''777''\<rparr>"

definition example_clock :: clock where
  "example_clock =
     \<lparr>now_iso = (\<lambda>n. ''2024-05-01T12:00:00-03:00''),
      expiry_iso = (\<lambda>n. ''2024-05-01T18:00:00-03:00''),
      today = (\<lambda>n. ''2024-05-01'')\<rparr>"

text \<open>A page of two orders, of a search that reports 120 results.\<close>

definition example_page :: json where
  "example_page =
     JObj [(''results'', JArr
              [JObj [(''paid_amount'', JNum 100), (''total_amount'', JNum 90), (''tags'', JArr [])],
               JObj [(''paid_amount'', JNum 50), (''tags'', JArr [JStr ''delivered''])]]),
           (''paging'', JObj [(''total'', JNum 120)])]"

definition token_response :: response where
  "token_response =
     \<lparr>status_code = 200,
      body = Some (JObj [(''access_token'', JStr ''AT1''), (''refresh_token'', JStr ''RT1'')])\<rparr>"

text \<open>
  A server that rotates the credential, serves \<open>example_page\<close> at every offset, and
  accepts every write.
\<close>

definition example_net :: net where
  "example_net tr rq =
     (case rq of
        AuthPost cid sec rt \<Rightarrow> Inr token_response
      | OrdersGet s f t l off tok \<Rightarrow> Inr \<lparr>status_code = 200, body = Some example_page\<rparr>
      | TokensGet n \<Rightarrow>
          Inr \<lparr>status_code = 200, body = Some (JArr [JObj [(''refresh_token'', JStr ''RT0'')]])\<rparr>
      | TokensPost n r u x \<Rightarrow> Inr \<lparr>status_code = 201, body = None\<rparr>
      | FaturamentoPost e d v \<Rightarrow> Inr \<lparr>status_code = 201, body = None\<rparr>)"

text \<open>The same server, whose order search fails from the second page on.\<close>

definition failing_net :: net where
  "failing_net tr rq =
     (case rq of
        OrdersGet s f t l off tok \<Rightarrow>
          if off = 0 then Inr \<lparr>status_code = 200, body = Some example_page\<rparr>
          else Inr \<lparr>status_code = 503, body = None\<rparr>
      | _ \<Rightarrow> example_net tr rq)"

text \<open>The same server, with no order to report and no paging metadata.\<close>

definition empty_net :: net where
  "empty_net tr rq =
     (case rq of
        OrdersGet s f t l off tok \<Rightarrow> Inr \<lparr>status_code = 200, body = Some (JObj [])\<rparr>
      | _ \<Rightarrow> example_net tr rq)"

text \<open>The same server, whose ledger refuses every write.\<close>

definition refusing_net :: net where
  "refusing_net tr rq =
     (case rq of
        FaturamentoPost e d v \<Rightarrow> Inr \<lparr>status_code = 500, body = None\<rparr>
      | _ \<Rightarrow> example_net tr rq)"

text \<open>The same server, unreachable for the application \<open>''bad''\<close>.\<close>

definition flaky_net :: net where
  "flaky_net tr rq =
     (case rq of
        AuthPost cid sec rt \<Rightarrow>
          if cid = ''bad'' then Inl (TransportError ''timed out'') else Inr token_response
      | _ \<Rightarrow> example_net tr rq)"

text \<open>An account of that application.\<close>

definition bad_account :: account where
  "bad_account =
     \<lparr>name = ''OUTRA'', empresa = ''Outra'', app_id = ''bad'', secret_key = ''x'',
      refresh_token = JStr ''RT9'', user_id = ''888''\<rparr>"

section \<open>The calls each operation makes\<close>

lemma py_get_Inr:
  "py_get v k d = Inr w \<Longrightarrow>
     \<exists>kvs. v = JObj kvs \<and> w = (case map_of kvs k of None \<Rightarrow> d | Some u \<Rightarrow> u)"
  by (cases v) auto

lemma get_access_token_calls:
  "\<exists>xs. snd (snd (get_access_token nt clk a tr)) = tr @ xs
      \<and> (\<forall>rq \<in> set xs. \<not> is_orders rq \<and> \<not> is_upsert rq)"
  by (auto simp: get_access_token_def send_def save_token_to_db_def auth_request_def
      save_request_def is_orders_def is_upsert_def Let_def
      split: sum.splits prod.splits option.splits)

text \<open>
  The loop asks for the offsets \<open>offset\<close>, \<open>offset + 50\<close>, ... in turn, and none beyond the
  first is above 500.
\<close>

lemma fetch_loop_calls:
  "\<exists>n. snd (fetch_loop nt a tok d acc offset tr)
        = tr @ map (\<lambda>k. orders_request a tok d (offset + 50 * int k)) [0..<Suc n]
      \<and> (0 < n \<longrightarrow> offset + 50 * int n \<le> 500)"
proof (induction nt a tok d acc offset tr rule: fetch_loop.induct)
  case (1 nt a tok d acc offset tr)
  let ?rq = "orders_request a tok d offset"
  show ?case
  proof (cases "snd (fetch_loop nt a tok d acc offset tr) = tr @ [?rq]")
    case True
    then show ?thesis by (intro exI[of _ 0]) simp
  next
    case False
    then obtain res data acc' reported where
      *: "nt tr ?rq = Inr res" "status_code res = 200" "res_json res = Inr data"
         "page_step data acc = Inr (acc', reported)" "py_ge (offset + 50) reported = Inr False"
         "\<not> 500 < offset + 50"
      by (subst (asm) fetch_loop.simps)
         (auto simp: send_def split: sum.splits if_splits prod.splits)
    have eq: "fetch_loop nt a tok d acc offset tr
        = fetch_loop nt a tok d acc' (offset + 50) (tr @ [?rq])"
      using * by (subst fetch_loop.simps) (simp add: send_def)
    have "\<exists>n. snd (fetch_loop nt a tok d acc' (offset + 50) (tr @ [?rq]))
            = (tr @ [?rq]) @ map (\<lambda>k. orders_request a tok d (offset + 50 + 50 * int k)) [0..<Suc n]
          \<and> (0 < n \<longrightarrow> offset + 50 + 50 * int n \<le> 500)"
      using "1.IH"[of "nt tr ?rq" "tr @ [?rq]" res data "(acc', reported)" acc' reported False] *
      by (simp add: send_def)
    then obtain n where n: "snd (fetch_loop nt a tok d acc' (offset + 50) (tr @ [?rq]))
        = (tr @ [?rq]) @ map (\<lambda>k. orders_request a tok d (offset + 50 + 50 * int k)) [0..<Suc n]"
        "0 < n \<longrightarrow> offset + 50 + 50 * int n \<le> 500"
      by blast
    have "map (\<lambda>k. orders_request a tok d (offset + 50 * int k)) [0..<Suc (Suc n)]
        = ?rq # map (\<lambda>k. orders_request a tok d (offset + 50 + 50 * int k)) [0..<Suc n]"
      by (simp only: upt_conv_Cons[of 0] map_Suc_upt[symmetric] zero_less_Suc if_True
            list.map map_map o_def)
         (simp add: algebra_simps)
    with n eq * show ?thesis
      by (intro exI[of _ "Suc n"]) (auto simp: algebra_simps)
  qed
qed

lemma fetch_snd:
  "snd (fetch_paid_orders_total nt a tok d tr) = snd (fetch_loop nt a tok d (0, 0, 0) 0 tr)"
  by (simp add: fetch_paid_orders_total_def split: prod.splits sum.splits)

lemma fetch_calls:
  "\<exists>xs. snd (fetch_paid_orders_total nt a tok d tr) = tr @ xs \<and> (\<forall>rq \<in> set xs. is_orders rq)"
proof -
  obtain n where "snd (fetch_loop nt a tok d (0, 0, 0) 0 tr)
        = tr @ map (\<lambda>k. orders_request a tok d (0 + 50 * int k)) [0..<Suc n]"
    using fetch_loop_calls[of nt a tok d "(0, 0, 0)" 0 tr] by blast
  then show ?thesis
    unfolding fetch_snd
    by (intro exI[of _ "map (\<lambda>k. orders_request a tok d (0 + 50 * int k)) [0..<Suc n]"])
       (auto simp: is_orders_def orders_request_def)
qed

lemma loop_failed_page:
  assumes "nt tr (orders_request a tok d offset) = Inr res" and "status_code res \<noteq> 200"
  shows "fetch_loop nt a tok d acc offset tr = (Inr acc, tr @ [orders_request a tok d offset])"
  using assms by (subst fetch_loop.simps) (simp add: send_def)

lemma loop_page:
  assumes "nt tr (orders_request a tok d offset) = Inr res" and "status_code res = 200"
    and "body res = Some data" and "page_step data acc = Inr (acc', JNum reported)"
  shows "fetch_loop nt a tok d acc offset tr =
     (if reported \<le> of_int (offset + 50) \<or> 500 < offset + 50
      then (Inr acc', tr @ [orders_request a tok d offset])
      else fetch_loop nt a tok d acc' (offset + 50) (tr @ [orders_request a tok d offset]))"
  using assms by (subst fetch_loop.simps) (simp add: send_def res_json_def)

lemma sync_account_empresa:
  "sync_account wording nt clk d a tr = (r, a', tr') \<Longrightarrow>
     o_empresa r = empresa a \<and> empresa a' = empresa a"
  by (auto simp: sync_account_def process_account_def get_access_token_def send_def Let_def
      token_error_outcome_def data_outcome_def error_outcome_def
      split: sum.splits prod.splits if_splits)

lemma sync_accounts_shape:
  "sync_accounts wording nt clk d accts tr = (rs, accts', tr') \<Longrightarrow>
     length rs = length accts \<and> map o_empresa rs = map empresa accts"
proof (induction accts arbitrary: tr rs accts' tr')
  case Nil
  then show ?case by simp
next
  case (Cons a rest)
  then show ?case
    by (auto split: prod.splits dest: sync_account_empresa)
qed

lemma sync_accounts_append:
  "sync_accounts wording nt clk d (pre @ post) tr =
     (case sync_accounts wording nt clk d pre tr of
        (rs1, pre', tr1) \<Rightarrow>
          (case sync_accounts wording nt clk d post tr1 of
             (rs2, post', tr2) \<Rightarrow> (rs1 @ rs2, pre' @ post', tr2)))"
  by (induction pre arbitrary: tr) (auto split: prod.splits)

section \<open>The example servers at work\<close>

lemma example_page_step: "page_step example_page (t, c, f) = Inr ((t + 150, c + 2, f), JNum 120)"
  by (simp add: page_step_def example_page_def order_step_def py_or_def total_results_of_def)

lemma three_pages_fetch:
  assumes r: "\<And>tr' off. nt tr' (orders_request a tok d off)
      = Inr \<lparr>status_code = 200, body = Some example_page\<rparr>"
  shows "fetch_paid_orders_total nt a tok d tr
     = (Inr \<lparr>valor = 450, order_count = 6, fraud_skipped = 0\<rparr>,
        tr @ [orders_request a tok d 0, orders_request a tok d 50, orders_request a tok d 100])"
proof -
  let ?res = "\<lparr>status_code = 200, body = Some example_page\<rparr>"
  have "fetch_loop nt a tok d (0, 0, 0) 0 tr
      = fetch_loop nt a tok d (150, 2, 0) 50 (tr @ [orders_request a tok d 0])"
    using loop_page [of nt tr a tok d 0 ?res example_page "(0, 0, 0)" "(150, 2, 0)" 120] r
    by (simp add: example_page_step)
  also have "\<dots> = fetch_loop nt a tok d (300, 4, 0) 100
      (tr @ [orders_request a tok d 0, orders_request a tok d 50])"
    using loop_page [of nt "tr @ [orders_request a tok d 0]" a tok d 50 ?res example_page
        "(150, 2, 0)" "(300, 4, 0)" 120] r
    by (simp add: example_page_step)
  also have "\<dots> = (Inr (450, 6, 0),
      tr @ [orders_request a tok d 0, orders_request a tok d 50, orders_request a tok d 100])"
    using loop_page [of nt "tr @ [orders_request a tok d 0, orders_request a tok d 50]"
        a tok d 100 ?res example_page "(300, 4, 0)" "(450, 6, 0)" 120] r
    by (simp add: example_page_step)
  finally show ?thesis
    by (simp add: fetch_paid_orders_total_def round2_def)
qed

lemma example_fetch:
  "fetch_paid_orders_total example_net a tok d tr
     = (Inr \<lparr>valor = 450, order_count = 6, fraud_skipped = 0\<rparr>,
        tr @ [orders_request a tok d 0, orders_request a tok d 50, orders_request a tok d 100])"
  by (rule three_pages_fetch) (simp add: example_net_def orders_request_def)

lemma flaky_fetch:
  "fetch_paid_orders_total flaky_net a tok d tr
     = (Inr \<lparr>valor = 450, order_count = 6, fraud_skipped = 0\<rparr>,
        tr @ [orders_request a tok d 0, orders_request a tok d 50, orders_request a tok d 100])"
  by (rule three_pages_fetch) (simp add: flaky_net_def example_net_def orders_request_def)

lemma refusing_fetch:
  "fetch_paid_orders_total refusing_net a tok d tr
     = (Inr \<lparr>valor = 450, order_count = 6, fraud_skipped = 0\<rparr>,
        tr @ [orders_request a tok d 0, orders_request a tok d 50, orders_request a tok d 100])"
  by (rule three_pages_fetch) (simp add: refusing_net_def example_net_def orders_request_def)

lemma empty_fetch:
  "fetch_paid_orders_total empty_net a tok d tr
     = (Inr \<lparr>valor = 0, order_count = 0, fraud_skipped = 0\<rparr>, tr @ [orders_request a tok d 0])"
  by (simp add: fetch_paid_orders_total_def fetch_loop.simps send_def res_json_def
      empty_net_def orders_request_def page_step_def total_results_of_def round2_def)

lemma example_exchange:
  "get_access_token example_net example_clock example_account []
     = (Inr (JStr ''AT1''), example_account\<lparr>refresh_token := JStr ''RT1''\<rparr>,
        [auth_request example_account,
         save_request example_clock ''LOJA'' (JStr ''RT1'') (JStr ''AT1'') 1])"
  by (simp add: get_access_token_def send_def res_json_def save_token_to_db_def
      example_net_def auth_request_def token_response_def save_request_def example_account_def)

lemma refusing_exchange:
  "get_access_token refusing_net example_clock example_account []
     = (Inr (JStr ''AT1''), example_account\<lparr>refresh_token := JStr ''RT1''\<rparr>,
        [auth_request example_account,
         save_request example_clock ''LOJA'' (JStr ''RT1'') (JStr ''AT1'') 1])"
  by (simp add: get_access_token_def send_def res_json_def save_token_to_db_def refusing_net_def
      example_net_def auth_request_def token_response_def save_request_def example_account_def)

lemma empty_exchange:
  "get_access_token empty_net example_clock example_account []
     = (Inr (JStr ''AT1''), example_account\<lparr>refresh_token := JStr ''RT1''\<rparr>,
        [auth_request example_account,
         save_request example_clock ''LOJA'' (JStr ''RT1'') (JStr ''AT1'') 1])"
  by (simp add: get_access_token_def send_def res_json_def save_token_to_db_def empty_net_def
      example_net_def auth_request_def token_response_def save_request_def example_account_def)

section \<open>The token exchange\<close>

text \<open>
  C1. When the token endpoint answers 200 with a body that holds a rotating credential
  (a truthy \<^verbatim>\<open>refresh_token\<close>), the exchange leaves the account holding the newly issued
  value and makes two calls: the token request, then one save to the credential store,
  the POST that carries the account's name and the newly issued value (with the access
  credential and its expiry when the body holds one). When that save is answered, with
  whatever status, the exchange returns the body's access credential; when the save fails
  in transport, the exchange raises that failure, the account and the calls being the same.
\<close>

theorem token_exchange_rotates_and_saves_once:
  assumes "nt tr (AuthPost (app_id a) (secret_key a) (refresh_token a)) = Inr res"
    and "status_code res = 200"
    and "body res = Some (JObj kvs)"
    and "map_of kvs ''refresh_token'' = Some new_refresh" and "truthy new_refresh"
    and "access = (case map_of kvs ''access_token'' of None \<Rightarrow> JNull | Some v \<Rightarrow> v)"
    and "save = TokensPost (name a) new_refresh (now_iso clk (Suc (length tr)))
                  (if truthy access then Some (access, expiry_iso clk (Suc (length tr)))
                   else None)"
  shows "get_access_token nt clk a tr =
      (case nt (tr @ [AuthPost (app_id a) (secret_key a) (refresh_token a)]) save of
         Inl e \<Rightarrow> Inl e
       | Inr answer \<Rightarrow> Inr access,
       a\<lparr>refresh_token := new_refresh\<rparr>,
       tr @ [AuthPost (app_id a) (secret_key a) (refresh_token a), save])
     \<and> filter is_save (drop (length tr) (snd (snd (get_access_token nt clk a tr)))) = [save]"
  using assms
  by (simp add: get_access_token_def send_def res_json_def save_token_to_db_def is_save_def
      auth_request_def save_request_def Let_def split: sum.splits option.splits)

text \<open>The exchange of \<open>example_account\<close> against \<open>example_net\<close>.\<close>

theorem token_exchange_rotates_and_saves_once_witness:
  "get_access_token example_net example_clock example_account []
     = (Inr (JStr ''AT1''),
        \<lparr>name = ''LOJA'', empresa = ''Loja'', app_id = ''1001'', secret_key = ''s3cr3t'',
         refresh_token = JStr ''RT1'', user_id = ''777''\<rparr>,
        [AuthPost ''1001'' ''s3cr3t'' (JStr ''RT0''),
         TokensPost ''LOJA'' (JStr ''RT1'') ''2024-05-01T12:00:00-03:00''
           (Some (JStr ''AT1'', ''2024-05-01T18:00:00-03:00''))])"
  using token_exchange_rotates_and_saves_once [where nt = example_net and tr = "[]"
      and a = example_account and res = token_response and clk = example_clock
      and kvs = "[(''access_token'', JStr ''AT1''), (''refresh_token'', JStr ''RT1'')]"
      and new_refresh = "JStr ''RT1''" and access = "JStr ''AT1''"
      and save = "TokensPost ''LOJA'' (JStr ''RT1'') ''2024-05-01T12:00:00-03:00''
           (Some (JStr ''AT1'', ''2024-05-01T18:00:00-03:00''))"]
  by (simp add: example_net_def token_response_def example_clock_def example_account_def)

text \<open>
  C9. The exchange changes the account or calls the credential store's save only when the
  answer has status 200 and its body holds a truthy rotating credential. On a status other
  than 200 it returns absent, and on a 200 body without a rotating credential it returns
  the body's access credential; in both cases the account is unchanged and the token
  request is the only call made.
\<close>

theorem token_exchange_frame:
  "(get_access_token nt clk a tr = (r, a', tr') \<longrightarrow>
      a' \<noteq> a \<or> filter is_save (drop (length tr) tr') \<noteq> [] \<longrightarrow>
      (\<exists>res kvs v. nt tr (auth_request a) = Inr res \<and> status_code res = 200
         \<and> body res = Some (JObj kvs) \<and> map_of kvs ''refresh_token'' = Some v \<and> truthy v))
 \<and> (nt tr (auth_request a) = Inr res \<longrightarrow> status_code res \<noteq> 200 \<longrightarrow>
      get_access_token nt clk a tr = (Inr JNull, a, tr @ [auth_request a]))
 \<and> (nt tr (auth_request a) = Inr res \<longrightarrow> status_code res = 200 \<longrightarrow>
      body res = Some (JObj kvs) \<longrightarrow>
      \<not> truthy (case map_of kvs ''refresh_token'' of None \<Rightarrow> JNull | Some v \<Rightarrow> v) \<longrightarrow>
      get_access_token nt clk a tr
        = (Inr (case map_of kvs ''access_token'' of None \<Rightarrow> JNull | Some v \<Rightarrow> v),
           a, tr @ [auth_request a]))"
proof (intro conjI impI)
  assume "get_access_token nt clk a tr = (r, a', tr')"
    and "a' \<noteq> a \<or> filter is_save (drop (length tr) tr') \<noteq> []"
  then show "\<exists>res kvs v. nt tr (auth_request a) = Inr res \<and> status_code res = 200
         \<and> body res = Some (JObj kvs) \<and> map_of kvs ''refresh_token'' = Some v \<and> truthy v"
    by (auto simp: get_access_token_def send_def res_json_def save_token_to_db_def is_save_def
        auth_request_def save_request_def Let_def
        split: sum.splits option.splits if_splits prod.splits dest!: py_get_Inr)
next
  assume "nt tr (auth_request a) = Inr res" and "status_code res \<noteq> 200"
  then show "get_access_token nt clk a tr = (Inr JNull, a, tr @ [auth_request a])"
    by (simp add: get_access_token_def send_def)
next
  assume "nt tr (auth_request a) = Inr res" and "status_code res = 200"
    and "body res = Some (JObj kvs)"
    and "\<not> truthy (case map_of kvs ''refresh_token'' of None \<Rightarrow> JNull | Some v \<Rightarrow> v)"
  then show "get_access_token nt clk a tr
        = (Inr (case map_of kvs ''access_token'' of None \<Rightarrow> JNull | Some v \<Rightarrow> v),
           a, tr @ [auth_request a])"
    by (simp add: get_access_token_def send_def res_json_def)
qed

text \<open>A rotating answer, a 401 answer, and a 200 answer without a rotating credential.\<close>

theorem token_exchange_frame_witness:
  "(\<exists>res kvs v. example_net [] (auth_request example_account) = Inr res \<and> status_code res = 200
         \<and> body res = Some (JObj kvs) \<and> map_of kvs ''refresh_token'' = Some v \<and> truthy v)
 \<and> get_access_token (\<lambda>tr rq. Inr \<lparr>status_code = 401, body = None\<rparr>) example_clock
        example_account []
      = (Inr JNull, example_account, [auth_request example_account])
 \<and> get_access_token
        (\<lambda>tr rq. Inr \<lparr>status_code = 200, body = Some (JObj [(''access_token'', JStr ''AT2'')])\<rparr>)
        example_clock example_account []
      = (Inr (JStr ''AT2''), example_account, [auth_request example_account])"
  using token_exchange_frame [of example_net example_clock example_account "[]"
      "Inr (JStr ''AT1'')" "example_account\<lparr>refresh_token := JStr ''RT1''\<rparr>"
      "[auth_request example_account,
        save_request example_clock ''LOJA'' (JStr ''RT1'') (JStr ''AT1'') 1]"]
    token_exchange_frame [of "\<lambda>tr rq. Inr \<lparr>status_code = 401, body = None\<rparr>" example_clock
      example_account "[]" _ _ _ "\<lparr>status_code = 401, body = None\<rparr>"]
    token_exchange_frame [of
      "\<lambda>tr rq. Inr \<lparr>status_code = 200, body = Some (JObj [(''access_token'', JStr ''AT2'')])\<rparr>"
      example_clock example_account "[]" _ _ _
      "\<lparr>status_code = 200, body = Some (JObj [(''access_token'', JStr ''AT2'')])\<rparr>"
      "[(''access_token'', JStr ''AT2'')]"]
  by (simp add: get_access_token_def send_def res_json_def save_token_to_db_def is_save_def
      save_request_def example_net_def auth_request_def token_response_def example_account_def
      example_clock_def)

section \<open>Loading the stored credential\<close>

text \<open>
  C8. The load returns absent when the store answers with a status other than 200, when
  it answers with no row, and when the first row's rotating credential is missing, null
  or empty; it returns the stored credential when that is non-empty. Its only call is the
  GET of the row, so it writes nothing.
\<close>

theorem load_token_cases:
  "(nt tr (TokensGet n) = Inr res \<longrightarrow> status_code res \<noteq> 200 \<longrightarrow>
      load_token_from_db nt n tr = (Inr JNull, tr @ [TokensGet n]))
 \<and> (nt tr (TokensGet n) = Inr res \<longrightarrow> status_code res = 200 \<longrightarrow> body res = Some (JArr []) \<longrightarrow>
      load_token_from_db nt n tr = (Inr JNull, tr @ [TokensGet n]))
 \<and> (nt tr (TokensGet n) = Inr res \<longrightarrow> status_code res = 200 \<longrightarrow>
      body res = Some (JArr (JObj row # rows)) \<longrightarrow>
      map_of row ''refresh_token'' = None \<or> map_of row ''refresh_token'' = Some JNull
        \<or> map_of row ''refresh_token'' = Some (JStr []) \<longrightarrow>
      load_token_from_db nt n tr = (Inr JNull, tr @ [TokensGet n]))
 \<and> (nt tr (TokensGet n) = Inr res \<longrightarrow> status_code res = 200 \<longrightarrow>
      body res = Some (JArr (JObj row # rows)) \<longrightarrow>
      map_of row ''refresh_token'' = Some v \<longrightarrow> truthy v \<longrightarrow>
      load_token_from_db nt n tr = (Inr v, tr @ [TokensGet n]))
 \<and> snd (load_token_from_db nt n tr) = tr @ [TokensGet n]"
  by (auto simp: load_token_from_db_def send_def res_json_def split: sum.splits option.splits)

text \<open>A failing store, an empty one, one with an empty credential, and \<open>example_net\<close>.\<close>

theorem load_token_cases_witness:
  "load_token_from_db (\<lambda>tr rq. Inr \<lparr>status_code = 500, body = None\<rparr>) ''LOJA'' []
     = (Inr JNull, [TokensGet ''LOJA''])
 \<and> load_token_from_db (\<lambda>tr rq. Inr \<lparr>status_code = 200, body = Some (JArr [])\<rparr>) ''LOJA'' []
     = (Inr JNull, [TokensGet ''LOJA''])
 \<and> load_token_from_db
      (\<lambda>tr rq. Inr \<lparr>status_code = 200,
                     body = Some (JArr [JObj [(''refresh_token'', JStr [])]])\<rparr>) ''LOJA'' []
     = (Inr JNull, [TokensGet ''LOJA''])
 \<and> load_token_from_db example_net ''LOJA'' [] = (Inr (JStr ''RT0''), [TokensGet ''LOJA''])"
  using load_token_cases [of "\<lambda>tr rq. Inr \<lparr>status_code = 500, body = None\<rparr>" "[]" "''LOJA''"
      "\<lparr>status_code = 500, body = None\<rparr>"]
    load_token_cases [of "\<lambda>tr rq. Inr \<lparr>status_code = 200, body = Some (JArr [])\<rparr>" "[]" "''LOJA''"
      "\<lparr>status_code = 200, body = Some (JArr [])\<rparr>"]
    load_token_cases [of
      "\<lambda>tr rq. Inr \<lparr>status_code = 200, body = Some (JArr [JObj [(''refresh_token'', JStr [])]])\<rparr>"
      "[]" "''LOJA''"
      "\<lparr>status_code = 200, body = Some (JArr [JObj [(''refresh_token'', JStr [])]])\<rparr>"
      "[(''refresh_token'', JStr [])]" "[]"]
    load_token_cases [of example_net "[]" "''LOJA''"
      "\<lparr>status_code = 200, body = Some (JArr [JObj [(''refresh_token'', JStr ''RT0'')]])\<rparr>"
      "[(''refresh_token'', JStr ''RT0'')]" "[]" "JStr ''RT0''"]
  by (simp add: example_net_def)

section \<open>The aggregation\<close>

text \<open>
  C2, as stated, fails: an order whose paid amount is present and zero adds its total
  amount. Here the running total goes from 10 to 40, where the paid amount would leave it
  at 10.
\<close>

theorem order_step_paid_amount_zero_uses_total:
  "order_step (10, 0, 0)
     (JObj [(''paid_amount'', JNum 0), (''total_amount'', JNum 30), (''tags'', JArr [])])
     = Inr (40, 1, 0)"
  by (simp add: order_step_def py_or_def)

text \<open>
  C2, amended. For every order: if its tag list contains the fraud-risk marker, the
  excluded count is incremented and the total is unchanged. Otherwise the included count
  is incremented, and the amount added is the paid amount when that is present and not
  zero; when the paid amount is missing, null or zero, the amount added is the total
  amount, or nothing when the total amount is missing too.
\<close>

theorem order_step_cases:
  "(map_of kvs ''tags'' = Some (JArr ts) \<longrightarrow> JStr ''fraud_risk_detected'' \<in> set ts \<longrightarrow>
      order_step (t, c, f) (JObj kvs) = Inr (t, c, f + 1))
 \<and> (map_of kvs ''tags'' = None \<or> map_of kvs ''tags'' = Some JNull
        \<or> map_of kvs ''tags'' = Some (JArr ts) \<longrightarrow>
      JStr ''fraud_risk_detected'' \<notin> set ts \<longrightarrow>
      map_of kvs ''paid_amount'' = Some (JNum p) \<longrightarrow> p \<noteq> 0 \<longrightarrow>
      order_step (t, c, f) (JObj kvs) = Inr (t + p, c + 1, f))
 \<and> (map_of kvs ''tags'' = None \<or> map_of kvs ''tags'' = Some JNull
        \<or> map_of kvs ''tags'' = Some (JArr ts) \<longrightarrow>
      JStr ''fraud_risk_detected'' \<notin> set ts \<longrightarrow>
      map_of kvs ''paid_amount'' = None \<or> map_of kvs ''paid_amount'' = Some JNull
        \<or> map_of kvs ''paid_amount'' = Some (JNum 0) \<longrightarrow>
      map_of kvs ''total_amount'' = Some (JNum q) \<longrightarrow>
      order_step (t, c, f) (JObj kvs) = Inr (t + q, c + 1, f))
 \<and> (map_of kvs ''tags'' = None \<or> map_of kvs ''tags'' = Some JNull
        \<or> map_of kvs ''tags'' = Some (JArr ts) \<longrightarrow>
      JStr ''fraud_risk_detected'' \<notin> set ts \<longrightarrow>
      map_of kvs ''paid_amount'' = None \<or> map_of kvs ''paid_amount'' = Some JNull
        \<or> map_of kvs ''paid_amount'' = Some (JNum 0) \<longrightarrow>
      map_of kvs ''total_amount'' = None \<longrightarrow>
      order_step (t, c, f) (JObj kvs) = Inr (t, c + 1, f))"
  by (auto simp: order_step_def py_or_def)

text \<open>A flagged order, a paid one, one with a null paid amount, one with no amount.\<close>

theorem order_step_cases_witness:
  "order_step (10, 1, 0)
     (JObj [(''paid_amount'', JNum 50), (''tags'', JArr [JStr ''fraud_risk_detected''])])
     = Inr (10, 1, 1)
 \<and> order_step (10, 1, 0)
     (JObj [(''paid_amount'', JNum 100), (''total_amount'', JNum 90), (''tags'', JArr [])])
     = Inr (110, 2, 0)
 \<and> order_step (10, 1, 0) (JObj [(''paid_amount'', JNull), (''total_amount'', JNum 30)])
     = Inr (40, 2, 0)
 \<and> order_step (10, 1, 0) (JObj [(''tags'', JArr [JStr ''delivered''])]) = Inr (10, 2, 0)"
  using order_step_cases [of
      "[(''paid_amount'', JNum 50), (''tags'', JArr [JStr ''fraud_risk_detected''])]"
      "[JStr ''fraud_risk_detected'']" 10 1 0]
    order_step_cases [of
      "[(''paid_amount'', JNum 100), (''total_amount'', JNum 90), (''tags'', JArr [])]"
      "[]" 10 1 0 100]
    order_step_cases [of "[(''paid_amount'', JNull), (''total_amount'', JNum 30)]"
      "[]" 10 1 0 _ 30]
    order_step_cases [of "[(''tags'', JArr [JStr ''delivered''])]" "[JStr ''delivered'']" 10 1 0]
  by simp

text \<open>
  C3. The calls of an aggregation are the order searches of the account's seller for the
  day, with page size 50, at the offsets 0, 50, 100, ... in turn, and there are at most
  eleven of them: no request has an offset above 500, whatever the server reports. The
  loop is a total function, its recursion bounded by the offset. After a page that was
  read at some offset, the loop stops exactly when that offset advanced by 50 has reached
  the reported total or exceeds 500, and otherwise goes on from the advanced offset.
\<close>

theorem pagination_bounded_and_stops:
  "(\<exists>n\<le>10. snd (fetch_paid_orders_total nt a tok d tr)
        = tr @ map (\<lambda>k. OrdersGet (user_id a) (d @ ''T00:00:00.000-03:00'')
                          (d @ ''T23:59:59.999-03:00'') 50 (50 * int k) tok) [0..<Suc n])
 \<and> (nt tr (OrdersGet (user_id a) (d @ ''T00:00:00.000-03:00'')
               (d @ ''T23:59:59.999-03:00'') 50 offset tok) = Inr res \<longrightarrow>
      status_code res = 200 \<longrightarrow>
      body res = Some data \<longrightarrow> page_step data acc = Inr (acc', JNum reported) \<longrightarrow>
      fetch_loop nt a tok d acc offset tr =
        (if reported \<le> of_int (offset + 50) \<or> 500 < offset + 50
         then (Inr acc',
               tr @ [OrdersGet (user_id a) (d @ ''T00:00:00.000-03:00'')
                       (d @ ''T23:59:59.999-03:00'') 50 offset tok])
         else fetch_loop nt a tok d acc' (offset + 50)
                (tr @ [OrdersGet (user_id a) (d @ ''T00:00:00.000-03:00'')
                         (d @ ''T23:59:59.999-03:00'') 50 offset tok])))"
proof (intro conjI impI)
  obtain n where n: "snd (fetch_loop nt a tok d (0, 0, 0) 0 tr)
        = tr @ map (\<lambda>k. orders_request a tok d (0 + 50 * int k)) [0..<Suc n]"
      "0 < n \<longrightarrow> 0 + 50 * int n \<le> 500"
    using fetch_loop_calls[of nt a tok d "(0, 0, 0)" 0 tr] by blast
  from n(2) have "n \<le> 10" by (cases "n = 0") auto
  with n(1) show "\<exists>n\<le>10. snd (fetch_paid_orders_total nt a tok d tr)
        = tr @ map (\<lambda>k. OrdersGet (user_id a) (d @ ''T00:00:00.000-03:00'')
                          (d @ ''T23:59:59.999-03:00'') 50 (50 * int k) tok) [0..<Suc n]"
    unfolding fetch_snd by (intro exI[of _ n]) (simp add: orders_request_def)
next
  let ?rq = "OrdersGet (user_id a) (d @ ''T00:00:00.000-03:00'')
               (d @ ''T23:59:59.999-03:00'') 50 offset tok"
  assume "nt tr ?rq = Inr res" "status_code res = 200"
    "body res = Some data" "page_step data acc = Inr (acc', JNum reported)"
  then show "fetch_loop nt a tok d acc offset tr =
        (if reported \<le> of_int (offset + 50) \<or> 500 < offset + 50
         then (Inr acc', tr @ [?rq])
         else fetch_loop nt a tok d acc' (offset + 50) (tr @ [?rq]))"
    using loop_page [of nt tr a tok d offset res data acc acc' reported]
    by (simp add: orders_request_def)
qed

text \<open>
  Against \<open>example_net\<close>, which reports 120 at every offset: on from offset 0, a stop at
  offset 100, three requests in all.
\<close>

theorem pagination_bounded_and_stops_witness:
  "fetch_loop example_net example_account (JStr ''AT1'') ''2024-05-01'' (0, 0, 0) 0 []
     = fetch_loop example_net example_account (JStr ''AT1'') ''2024-05-01'' (150, 2, 0) 50
         [OrdersGet ''777'' ''2024-05-01T00:00:00.000-03:00'' ''2024-05-01T23:59:59.999-03:00''
            50 0 (JStr ''AT1'')]
 \<and> fetch_loop example_net example_account (JStr ''AT1'') ''2024-05-01'' (300, 4, 0) 100 []
     = (Inr (450, 6, 0),
        [OrdersGet ''777'' ''2024-05-01T00:00:00.000-03:00'' ''2024-05-01T23:59:59.999-03:00''
           50 100 (JStr ''AT1'')])
 \<and> snd (fetch_paid_orders_total example_net example_account (JStr ''AT1'') ''2024-05-01'' [])
     = [OrdersGet ''777'' ''2024-05-01T00:00:00.000-03:00'' ''2024-05-01T23:59:59.999-03:00''
          50 0 (JStr ''AT1''),
        OrdersGet ''777'' ''2024-05-01T00:00:00.000-03:00'' ''2024-05-01T23:59:59.999-03:00''
          50 50 (JStr ''AT1''),
        OrdersGet ''777'' ''2024-05-01T00:00:00.000-03:00'' ''2024-05-01T23:59:59.999-03:00''
          50 100 (JStr ''AT1'')]"
proof -
  have c1: "fetch_loop example_net example_account (JStr ''AT1'') ''2024-05-01'' (0, 0, 0) 0 []
     = fetch_loop example_net example_account (JStr ''AT1'') ''2024-05-01'' (150, 2, 0) 50
         [OrdersGet ''777'' ''2024-05-01T00:00:00.000-03:00'' ''2024-05-01T23:59:59.999-03:00''
            50 0 (JStr ''AT1'')]"
    using pagination_bounded_and_stops [where nt = example_net and a = example_account
        and tok = "JStr ''AT1''" and d = "''2024-05-01''" and tr = "[]" and offset = 0
        and res = "\<lparr>status_code = 200, body = Some example_page\<rparr>" and data = example_page
        and acc = "(0, 0, 0)" and acc' = "(150, 2, 0)" and reported = 120, THEN conjunct2]
    by (simp add: example_net_def example_page_step example_account_def)
  have c2: "fetch_loop example_net example_account (JStr ''AT1'') ''2024-05-01'' (300, 4, 0) 100 []
     = (Inr (450, 6, 0),
        [OrdersGet ''777'' ''2024-05-01T00:00:00.000-03:00'' ''2024-05-01T23:59:59.999-03:00''
           50 100 (JStr ''AT1'')])"
    using pagination_bounded_and_stops [where nt = example_net and a = example_account
        and tok = "JStr ''AT1''" and d = "''2024-05-01''" and tr = "[]" and offset = 100
        and res = "\<lparr>status_code = 200, body = Some example_page\<rparr>" and data = example_page
        and acc = "(300, 4, 0)" and acc' = "(450, 6, 0)" and reported = 120, THEN conjunct2]
    by (simp add: example_net_def example_page_step example_account_def)
  have c3: "snd (fetch_paid_orders_total example_net example_account (JStr ''AT1'')
                   ''2024-05-01'' [])
     = [OrdersGet ''777'' ''2024-05-01T00:00:00.000-03:00'' ''2024-05-01T23:59:59.999-03:00''
          50 0 (JStr ''AT1''),
        OrdersGet ''777'' ''2024-05-01T00:00:00.000-03:00'' ''2024-05-01T23:59:59.999-03:00''
          50 50 (JStr ''AT1''),
        OrdersGet ''777'' ''2024-05-01T00:00:00.000-03:00'' ''2024-05-01T23:59:59.999-03:00''
          50 100 (JStr ''AT1'')]"
    by (simp add: example_fetch orders_request_def example_account_def)
  from c1 c2 c3 show ?thesis by blast
qed

text \<open>
  C6. The page of the three orders \<open>{paid=100, tags=[]}\<close>,
  \<open>{paid=50, tags=["fraud_risk_detected"]}\<close> and \<open>{total=30, paid=null}\<close> is summed to
  130 with two orders counted and one skipped: the loop over the orders ends with these
  totals, and so does the whole aggregation against a server that answers with this
  single page. The third order adds its total amount, its paid amount being null.
\<close>

theorem aggregation_of_example_page:
  "process_orders
     [JObj [(''paid_amount'', JNum 100), (''tags'', JArr [])],
      JObj [(''paid_amount'', JNum 50), (''tags'', JArr [JStr ''fraud_risk_detected''])],
      JObj [(''total_amount'', JNum 30), (''paid_amount'', JNull)]] (0, 0, 0)
     = Inr (130, 2, 1)
   \<and> fetch_paid_orders_total
       (\<lambda>tr rq. Inr \<lparr>status_code = 200, body = Some (JObj
          [(''results'', JArr
             [JObj [(''paid_amount'', JNum 100), (''tags'', JArr [])],
              JObj [(''paid_amount'', JNum 50), (''tags'', JArr [JStr ''fraud_risk_detected''])],
              JObj [(''total_amount'', JNum 30), (''paid_amount'', JNull)]]),
           (''paging'', JObj [(''total'', JNum 3)])])\<rparr>)
       a access_token date_str tr
     = (Inr \<lparr>valor = 130, order_count = 2, fraud_skipped = 1\<rparr>,
        tr @ [orders_request a access_token date_str 0])"
  by (simp add: fetch_paid_orders_total_def fetch_loop.simps send_def res_json_def
      page_step_def order_step_def py_or_def total_results_of_def round2_def)

text \<open>
  C7. When a page request is answered with a status other than 200, the loop stops at
  once and returns the totals accumulated from the pages before it, as a result and not
  as an error; that request is the last call made.
\<close>

theorem failed_page_keeps_partial_totals:
  assumes "nt tr (orders_request a tok d offset) = Inr res" and "status_code res \<noteq> 200"
  shows "fetch_loop nt a tok d acc offset tr = (Inr acc, tr @ [orders_request a tok d offset])"
  using assms by (rule loop_failed_page)

text \<open>
  Against \<open>failing_net\<close> the second page fails, and the aggregation returns the totals of
  the first.
\<close>

theorem failed_page_keeps_partial_totals_witness:
  "fetch_paid_orders_total failing_net example_account (JStr ''AT1'') ''2024-05-01'' []
     = (Inr \<lparr>valor = 150, order_count = 2, fraud_skipped = 0\<rparr>,
        [orders_request example_account (JStr ''AT1'') ''2024-05-01'' 0,
         orders_request example_account (JStr ''AT1'') ''2024-05-01'' 50])"
proof -
  let ?rq = "orders_request example_account (JStr ''AT1'') ''2024-05-01''"
  have first: "fetch_loop failing_net example_account (JStr ''AT1'') ''2024-05-01'' (0, 0, 0) 0 []
      = fetch_loop failing_net example_account (JStr ''AT1'') ''2024-05-01'' (150, 2, 0) 50 [?rq 0]"
    using loop_page [of failing_net "[]" example_account "JStr ''AT1''" "''2024-05-01''" 0
        "\<lparr>status_code = 200, body = Some example_page\<rparr>" example_page "(0, 0, 0)"
        "(150, 2, 0)" 120]
    by (simp add: failing_net_def orders_request_def example_page_step)
  have second: "fetch_loop failing_net example_account (JStr ''AT1'') ''2024-05-01'' (150, 2, 0) 50 [?rq 0]
      = (Inr (150, 2, 0), [?rq 0] @ [?rq 50])"
    by (rule failed_page_keeps_partial_totals [where res = "\<lparr>status_code = 503, body = None\<rparr>"])
       (simp_all add: failing_net_def orders_request_def)
  show ?thesis
    by (simp add: fetch_paid_orders_total_def first second round2_def)
qed

text \<open>
  C10. A page without a results array leaves the totals as they are. An order whose tags
  are missing or null is processed as the same order with an empty tag list, and is
  counted when its amount is a number. A page whose paging metadata, or the total in it,
  is missing reports the total 0, and a page that reports 0 ends the pagination. None of
  these raises.
\<close>

theorem malformed_pages_are_tolerated:
  "(map_of kvs ''results'' = None \<longrightarrow> total_results_of (JObj kvs) = Inr reported \<longrightarrow>
      page_step (JObj kvs) acc = Inr (acc, reported))
 \<and> (map_of okvs ''tags'' = None \<or> map_of okvs ''tags'' = Some JNull \<longrightarrow>
      order_step acc (JObj okvs) = order_step acc (JObj ((''tags'', JArr []) # okvs)))
 \<and> (map_of okvs ''tags'' = None \<or> map_of okvs ''tags'' = Some JNull \<longrightarrow>
      map_of okvs ''paid_amount'' = Some (JNum p) \<longrightarrow> p \<noteq> 0 \<longrightarrow>
      order_step (t, c, f) (JObj okvs) = Inr (t + p, c + 1, f))
 \<and> (map_of kvs ''paging'' = None
        \<or> (\<exists>pg. map_of kvs ''paging'' = Some (JObj pg) \<and> map_of pg ''total'' = None) \<longrightarrow>
      total_results_of (JObj kvs) = Inr (JNum 0))
 \<and> (nt tr (orders_request a tok d offset) = Inr res \<longrightarrow> status_code res = 200 \<longrightarrow>
      body res = Some data \<longrightarrow> page_step data acc = Inr (acc', JNum 0) \<longrightarrow> 0 \<le> offset \<longrightarrow>
      fetch_loop nt a tok d acc offset tr = (Inr acc', tr @ [orders_request a tok d offset]))"
proof (intro conjI impI)
  assume "map_of kvs ''results'' = None" "total_results_of (JObj kvs) = Inr reported"
  then show "page_step (JObj kvs) acc = Inr (acc, reported)"
    by (simp add: page_step_def)
next
  assume "map_of okvs ''tags'' = None \<or> map_of okvs ''tags'' = Some JNull"
  then show "order_step acc (JObj okvs) = order_step acc (JObj ((''tags'', JArr []) # okvs))"
    by (auto simp: order_step_def py_or_def)
next
  assume "map_of okvs ''tags'' = None \<or> map_of okvs ''tags'' = Some JNull"
    "map_of okvs ''paid_amount'' = Some (JNum p)" "p \<noteq> 0"
  then show "order_step (t, c, f) (JObj okvs) = Inr (t + p, c + 1, f)"
    by (auto simp: order_step_def py_or_def)
next
  assume "map_of kvs ''paging'' = None
        \<or> (\<exists>pg. map_of kvs ''paging'' = Some (JObj pg) \<and> map_of pg ''total'' = None)"
  then show "total_results_of (JObj kvs) = Inr (JNum 0)"
    by (auto simp: total_results_of_def)
next
  assume "nt tr (orders_request a tok d offset) = Inr res" "status_code res = 200"
    "body res = Some data" "page_step data acc = Inr (acc', JNum 0)" "0 \<le> offset"
  then show "fetch_loop nt a tok d acc offset tr = (Inr acc', tr @ [orders_request a tok d offset])"
    using loop_page [of nt tr a tok d offset res data acc acc' 0] by simp
qed

text \<open>The empty object as a page, orders without tags, paging without a total.\<close>

theorem malformed_pages_are_tolerated_witness:
  "page_step (JObj []) (150, 2, 0) = Inr ((150, 2, 0), JNum 0)
 \<and> order_step (0, 0, 0) (JObj [(''paid_amount'', JNum 20), (''tags'', JNull)])
     = order_step (0, 0, 0) (JObj [(''tags'', JArr []), (''paid_amount'', JNum 20), (''tags'', JNull)])
 \<and> order_step (0, 0, 0) (JObj [(''paid_amount'', JNum 20)]) = Inr (20, 1, 0)
 \<and> total_results_of (JObj [(''paging'', JObj [(''offset'', JNum 0)])]) = Inr (JNum 0)
 \<and> fetch_loop empty_net example_account (JStr ''AT1'') ''2024-05-01'' (0, 0, 0) 0 []
     = (Inr (0, 0, 0), [orders_request example_account (JStr ''AT1'') ''2024-05-01'' 0])"
proof -
  have c1: "page_step (JObj []) (150, 2, 0) = Inr ((150, 2, 0), JNum 0)"
    using malformed_pages_are_tolerated [where kvs = "[]" and reported = "JNum 0"
        and acc = "(150, 2, 0)",
        THEN conjunct1]
    by (simp add: total_results_of_def)
  have c2: "order_step (0, 0, 0) (JObj [(''paid_amount'', JNum 20), (''tags'', JNull)])
     = order_step (0, 0, 0)
         (JObj [(''tags'', JArr []), (''paid_amount'', JNum 20), (''tags'', JNull)])"
    using malformed_pages_are_tolerated [where
        okvs = "[(''paid_amount'', JNum 20), (''tags'', JNull)]" and acc = "(0, 0, 0)",
        THEN conjunct2, THEN conjunct1]
    by simp
  have c3: "order_step (0, 0, 0) (JObj [(''paid_amount'', JNum 20)]) = Inr (20, 1, 0)"
    using malformed_pages_are_tolerated [where okvs = "[(''paid_amount'', JNum 20)]"
        and p = 20 and t = 0 and c = 0 and f = 0,
        THEN conjunct2, THEN conjunct2, THEN conjunct1]
    by simp
  have c4: "total_results_of (JObj [(''paging'', JObj [(''offset'', JNum 0)])]) = Inr (JNum 0)"
    using malformed_pages_are_tolerated [where
        kvs = "[(''paging'', JObj [(''offset'', JNum 0)])]",
        THEN conjunct2, THEN conjunct2, THEN conjunct2, THEN conjunct1]
    by simp
  have c5: "fetch_loop empty_net example_account (JStr ''AT1'') ''2024-05-01'' (0, 0, 0) 0 []
     = (Inr (0, 0, 0), [orders_request example_account (JStr ''AT1'') ''2024-05-01'' 0])"
    using malformed_pages_are_tolerated [where nt = empty_net and tr = "[]"
        and a = example_account and tok = "JStr ''AT1''" and d = "''2024-05-01''"
        and offset = 0 and res = "\<lparr>status_code = 200, body = Some (JObj [])\<rparr>"
        and data = "JObj []" and acc = "(0, 0, 0)" and acc' = "(0, 0, 0)",
        THEN conjunct2, THEN conjunct2, THEN conjunct2, THEN conjunct2]
    by (simp add: total_results_of_def empty_net_def orders_request_def page_step_def)
  from c1 c2 c3 c4 c5 show ?thesis by blast
qed

section \<open>The orchestrator\<close>

text \<open>
  C4. For one account: when the token exchange returns absent (or any falsy value), the
  outcome is the record tagged \<open>token_error\<close>, with no value and no counts, and no order
  request and no ledger upsert is made. When the aggregated value is above zero, the
  ledger upsert is called once, with the account's label, the date and that value, and
  the outcome carries the value and the counts and is tagged \<open>synced\<close> when the upsert
  returns true, \<open>upsert_error\<close> when it returns false. When the aggregated value is zero,
  the outcome carries the value and the counts and is tagged \<open>no_sales\<close>, and no ledger
  upsert is made.
\<close>

theorem account_outcome_cases:
  "(get_access_token nt clk a tr = (Inr token, a', tr1) \<longrightarrow> \<not> truthy token \<longrightarrow>
      sync_account wording nt clk d a tr
        = (\<lparr>o_empresa = empresa a', o_date = d, o_valor = None, o_orders = None,
            o_fraud_skipped = None, o_status = ''token_error'', o_error = None\<rparr>, a', tr1)
      \<and> filter (\<lambda>rq. is_orders rq \<or> is_upsert rq) (drop (length tr) tr1) = [])
 \<and> (get_access_token nt clk a tr = (Inr token, a', tr1) \<longrightarrow> truthy token \<longrightarrow>
      fetch_paid_orders_total nt a' token d tr1 = (Inr data, tr2) \<longrightarrow> 0 < valor data \<longrightarrow>
      upsert_faturamento nt (empresa a') d (valor data) tr2 = (Inr ok, tr3) \<longrightarrow>
      sync_account wording nt clk d a tr
        = (\<lparr>o_empresa = empresa a', o_date = d, o_valor = Some (valor data),
            o_orders = Some (order_count data), o_fraud_skipped = Some (fraud_skipped data),
            o_status = (if ok then ''synced'' else ''upsert_error''), o_error = None\<rparr>,
           a', tr3)
      \<and> tr3 = tr2 @ [FaturamentoPost (empresa a') d (valor data)]
      \<and> filter is_upsert (drop (length tr) tr3) = [FaturamentoPost (empresa a') d (valor data)])
 \<and> (get_access_token nt clk a tr = (Inr token, a', tr1) \<longrightarrow> truthy token \<longrightarrow>
      fetch_paid_orders_total nt a' token d tr1 = (Inr data, tr2) \<longrightarrow> valor data = 0 \<longrightarrow>
      sync_account wording nt clk d a tr
        = (\<lparr>o_empresa = empresa a', o_date = d, o_valor = Some 0,
            o_orders = Some (order_count data), o_fraud_skipped = Some (fraud_skipped data),
            o_status = ''no_sales'', o_error = None\<rparr>, a', tr2)
      \<and> filter is_upsert (drop (length tr) tr2) = [])"
proof (intro conjI impI)
  assume g: "get_access_token nt clk a tr = (Inr token, a', tr1)" and t: "\<not> truthy token"
  show "sync_account wording nt clk d a tr
        = (\<lparr>o_empresa = empresa a', o_date = d, o_valor = None, o_orders = None,
            o_fraud_skipped = None, o_status = ''token_error'', o_error = None\<rparr>, a', tr1)"
    using g t by (simp add: sync_account_def process_account_def token_error_outcome_def)
  from get_access_token_calls[of nt clk a tr] g
  obtain xs where "tr1 = tr @ xs" "\<forall>rq \<in> set xs. \<not> is_orders rq \<and> \<not> is_upsert rq" by auto
  then show "filter (\<lambda>rq. is_orders rq \<or> is_upsert rq) (drop (length tr) tr1) = []"
    by simp
next
  assume g: "get_access_token nt clk a tr = (Inr token, a', tr1)" and t: "truthy token"
    and f: "fetch_paid_orders_total nt a' token d tr1 = (Inr data, tr2)" and v: "0 < valor data"
    and u: "upsert_faturamento nt (empresa a') d (valor data) tr2 = (Inr ok, tr3)"
  show "sync_account wording nt clk d a tr
        = (\<lparr>o_empresa = empresa a', o_date = d, o_valor = Some (valor data),
            o_orders = Some (order_count data), o_fraud_skipped = Some (fraud_skipped data),
            o_status = (if ok then ''synced'' else ''upsert_error''), o_error = None\<rparr>,
           a', tr3)"
    using g t f v u by (simp add: sync_account_def process_account_def data_outcome_def)
  from get_access_token_calls[of nt clk a tr] g
  obtain xs where xs: "tr1 = tr @ xs" "\<forall>rq \<in> set xs. \<not> is_orders rq \<and> \<not> is_upsert rq" by auto
  from fetch_calls[of nt a' token d tr1] f
  obtain ys where ys: "tr2 = tr1 @ ys" "\<forall>rq \<in> set ys. is_orders rq" by auto
  show tr3: "tr3 = tr2 @ [FaturamentoPost (empresa a') d (valor data)]"
    using u by (auto simp: upsert_faturamento_def send_def split: sum.splits)
  have "filter is_upsert ys = []"
    using ys(2) by (intro filter_False) (auto simp: is_orders_def is_upsert_def split: request.splits)
  with tr3 show "filter is_upsert (drop (length tr) tr3)
      = [FaturamentoPost (empresa a') d (valor data)]"
    using xs ys by (simp add: is_upsert_def)
next
  assume g: "get_access_token nt clk a tr = (Inr token, a', tr1)" and t: "truthy token"
    and f: "fetch_paid_orders_total nt a' token d tr1 = (Inr data, tr2)" and v: "valor data = 0"
  show "sync_account wording nt clk d a tr
        = (\<lparr>o_empresa = empresa a', o_date = d, o_valor = Some 0,
            o_orders = Some (order_count data), o_fraud_skipped = Some (fraud_skipped data),
            o_status = ''no_sales'', o_error = None\<rparr>, a', tr2)"
    using g t f v by (simp add: sync_account_def process_account_def data_outcome_def)
  from get_access_token_calls[of nt clk a tr] g
  obtain xs where xs: "tr1 = tr @ xs" "\<forall>rq \<in> set xs. \<not> is_orders rq \<and> \<not> is_upsert rq" by auto
  from fetch_calls[of nt a' token d tr1] f
  obtain ys where ys: "tr2 = tr1 @ ys" "\<forall>rq \<in> set ys. is_orders rq" by auto
  have "filter is_upsert ys = []"
    using ys(2) by (intro filter_False) (auto simp: is_orders_def is_upsert_def split: request.splits)
  then show "filter is_upsert (drop (length tr) tr2) = []"
    using xs ys by simp
qed

text \<open>
  A refused exchange, a day with sales, the same day with the ledger refusing the write,
  a day without sales.
\<close>

theorem account_outcome_cases_witness:
  "\<forall>wording.
   sync_account wording (\<lambda>tr rq. Inr \<lparr>status_code = 401, body = None\<rparr>) example_clock
      ''2024-05-01'' example_account []
     = (\<lparr>o_empresa = ''Loja'', o_date = ''2024-05-01'', o_valor = None, o_orders = None,
         o_fraud_skipped = None, o_status = ''token_error'', o_error = None\<rparr>,
        example_account, [AuthPost ''1001'' ''s3cr3t'' (JStr ''RT0'')])
 \<and> fst (sync_account wording example_net example_clock ''2024-05-01'' example_account [])
     = \<lparr>o_empresa = ''Loja'', o_date = ''2024-05-01'', o_valor = Some 450, o_orders = Some 6,
        o_fraud_skipped = Some 0, o_status = ''synced'', o_error = None\<rparr>
 \<and> filter is_upsert
       (snd (snd (sync_account wording example_net example_clock ''2024-05-01''
                    example_account [])))
     = [FaturamentoPost ''Loja'' ''2024-05-01'' 450]
 \<and> fst (sync_account wording refusing_net example_clock ''2024-05-01'' example_account [])
     = \<lparr>o_empresa = ''Loja'', o_date = ''2024-05-01'', o_valor = Some 450, o_orders = Some 6,
        o_fraud_skipped = Some 0, o_status = ''upsert_error'', o_error = None\<rparr>
 \<and> sync_account wording empty_net example_clock ''2024-05-01'' example_account []
     = (\<lparr>o_empresa = ''Loja'', o_date = ''2024-05-01'', o_valor = Some 0, o_orders = Some 0,
         o_fraud_skipped = Some 0, o_status = ''no_sales'', o_error = None\<rparr>,
        \<lparr>name = ''LOJA'', empresa = ''Loja'', app_id = ''1001'', secret_key = ''s3cr3t'',
         refresh_token = JStr ''RT1'', user_id = ''777''\<rparr>,
        [AuthPost ''1001'' ''s3cr3t'' (JStr ''RT0''),
         TokensPost ''LOJA'' (JStr ''RT1'') ''2024-05-01T12:00:00-03:00''
           (Some (JStr ''AT1'', ''2024-05-01T18:00:00-03:00'')),
         OrdersGet ''777'' ''2024-05-01T00:00:00.000-03:00'' ''2024-05-01T23:59:59.999-03:00''
           50 0 (JStr ''AT1'')])"
  (is "\<forall>wording. ?P wording")
proof (intro allI)
  fix wording :: messages
  let ?a' = "example_account\<lparr>refresh_token := JStr ''RT1''\<rparr>"
  let ?tr1 = "[auth_request example_account,
         save_request example_clock ''LOJA'' (JStr ''RT1'') (JStr ''AT1'') 1]"
  let ?tr2 = "?tr1 @ [orders_request ?a' (JStr ''AT1'') ''2024-05-01'' 0,
         orders_request ?a' (JStr ''AT1'') ''2024-05-01'' 50,
         orders_request ?a' (JStr ''AT1'') ''2024-05-01'' 100]"
  have c1: "sync_account wording (\<lambda>tr rq. Inr \<lparr>status_code = 401, body = None\<rparr>)
      example_clock ''2024-05-01'' example_account []
     = (\<lparr>o_empresa = ''Loja'', o_date = ''2024-05-01'', o_valor = None, o_orders = None,
         o_fraud_skipped = None, o_status = ''token_error'', o_error = None\<rparr>,
        example_account, [AuthPost ''1001'' ''s3cr3t'' (JStr ''RT0'')])"
    using account_outcome_cases [where nt = "\<lambda>tr rq. Inr \<lparr>status_code = 401, body = None\<rparr>"
        and clk = example_clock and a = example_account and tr = "[]" and token = JNull
        and a' = example_account and ?tr1.0 = "[auth_request example_account]"
        and d = "''2024-05-01''" , THEN conjunct1]
    by (simp add: get_access_token_def send_def auth_request_def example_account_def)
  have c2: "sync_account wording example_net example_clock ''2024-05-01'' example_account []
     = (\<lparr>o_empresa = ''Loja'', o_date = ''2024-05-01'', o_valor = Some 450, o_orders = Some 6,
         o_fraud_skipped = Some 0, o_status = ''synced'', o_error = None\<rparr>,
        ?a', ?tr2 @ [FaturamentoPost ''Loja'' ''2024-05-01'' 450])"
    using account_outcome_cases [where nt = example_net
        and clk = example_clock and a = example_account and tr = "[]" and token = "JStr ''AT1''"
        and a' = ?a' and ?tr1.0 = ?tr1 and d = "''2024-05-01''"
        and data = "\<lparr>valor = 450, order_count = 6, fraud_skipped = 0\<rparr>" and ?tr2.0 = ?tr2
        and ok = True and ?tr3.0 = "?tr2 @ [FaturamentoPost ''Loja'' ''2024-05-01'' 450]",
        THEN conjunct2, THEN conjunct1]
      example_exchange example_fetch [of ?a' "JStr ''AT1''" "''2024-05-01''" ?tr1]
    by (simp add: upsert_faturamento_def send_def example_net_def example_account_def)
  have c2': "sync_account wording refusing_net example_clock ''2024-05-01'' example_account []
     = (\<lparr>o_empresa = ''Loja'', o_date = ''2024-05-01'', o_valor = Some 450, o_orders = Some 6,
         o_fraud_skipped = Some 0, o_status = ''upsert_error'', o_error = None\<rparr>,
        ?a', ?tr2 @ [FaturamentoPost ''Loja'' ''2024-05-01'' 450])"
    using account_outcome_cases [where nt = refusing_net
        and clk = example_clock and a = example_account and tr = "[]" and token = "JStr ''AT1''"
        and a' = ?a' and ?tr1.0 = ?tr1 and d = "''2024-05-01''"
        and data = "\<lparr>valor = 450, order_count = 6, fraud_skipped = 0\<rparr>" and ?tr2.0 = ?tr2
        and ok = False and ?tr3.0 = "?tr2 @ [FaturamentoPost ''Loja'' ''2024-05-01'' 450]",
        THEN conjunct2, THEN conjunct1]
      refusing_exchange refusing_fetch [of ?a' "JStr ''AT1''" "''2024-05-01''" ?tr1]
    by (simp add: upsert_faturamento_def send_def refusing_net_def example_account_def)
  have c3: "sync_account wording empty_net example_clock ''2024-05-01'' example_account []
     = (\<lparr>o_empresa = ''Loja'', o_date = ''2024-05-01'', o_valor = Some 0, o_orders = Some 0,
         o_fraud_skipped = Some 0, o_status = ''no_sales'', o_error = None\<rparr>,
        ?a', ?tr1 @ [orders_request ?a' (JStr ''AT1'') ''2024-05-01'' 0])"
    using account_outcome_cases [where nt = empty_net
        and clk = example_clock and a = example_account and tr = "[]" and token = "JStr ''AT1''"
        and a' = ?a' and ?tr1.0 = ?tr1 and d = "''2024-05-01''"
        and data = "\<lparr>valor = 0, order_count = 0, fraud_skipped = 0\<rparr>"
        and ?tr2.0 = "?tr1 @ [orders_request ?a' (JStr ''AT1'') ''2024-05-01'' 0]",
        THEN conjunct2, THEN conjunct2]
      empty_exchange empty_fetch [of ?a' "JStr ''AT1''" "''2024-05-01''" ?tr1]
    by (simp add: example_account_def)
  from c1 c2 c2' c3 show "?P wording"
    by (simp add: is_upsert_def is_orders_def auth_request_def save_request_def
        orders_request_def example_account_def example_clock_def)
qed

text \<open>
  C5. The outcome list of a run has one record per configured account, in configuration
  order. When the processing of an account raises, the record at its place is tagged
  \<open>error\<close> and carries the account's label, the date and the message of that exception
  (Python's \<^verbatim>\<open>str\<close> of it), with no value and no counts; the records before it are kept, and
  the accounts after it are processed as usual, from the calls made so far.
\<close>

theorem run_isolates_failures:
  "length (fst (sync_all wording nt clk st tr)) = length (ACCOUNTS st)
 \<and> map o_empresa (fst (sync_all wording nt clk st tr)) = map empresa (ACCOUNTS st)
 \<and> (ACCOUNTS st = pre @ a # post \<longrightarrow>
      sync_accounts wording nt clk (today clk (length tr)) pre tr = (rs1, pre', tr1) \<longrightarrow>
      process_account nt clk (today clk (length tr)) a tr1 = (Inl e, a', tr2) \<longrightarrow>
      fst (sync_all wording nt clk st tr)
        = rs1 @ \<lparr>o_empresa = empresa a, o_date = today clk (length tr), o_valor = None,
                 o_orders = None, o_fraud_skipped = None, o_status = ''error'',
                 o_error = Some (py_str wording e)\<rparr>
            # fst (sync_accounts wording nt clk (today clk (length tr)) post tr2))"
proof (intro conjI impI)
  obtain rs accts' tr' where r:
    "sync_accounts wording nt clk (today clk (length tr)) (ACCOUNTS st) tr = (rs, accts', tr')"
    by (cases "sync_accounts wording nt clk (today clk (length tr)) (ACCOUNTS st) tr") auto
  then have f: "fst (sync_all wording nt clk st tr) = rs"
    by (simp add: sync_all_def)
  from sync_accounts_shape[OF r] f
  show "length (fst (sync_all wording nt clk st tr)) = length (ACCOUNTS st)"
    and "map o_empresa (fst (sync_all wording nt clk st tr)) = map empresa (ACCOUNTS st)"
    by simp_all
next
  let ?d = "today clk (length tr)"
  assume st: "ACCOUNTS st = pre @ a # post"
    and pre: "sync_accounts wording nt clk ?d pre tr = (rs1, pre', tr1)"
    and e: "process_account nt clk ?d a tr1 = (Inl e, a', tr2)"
  have sa: "sync_account wording nt clk ?d a tr1 = (error_outcome wording a' ?d e, a', tr2)"
    using e by (simp add: sync_account_def)
  from sync_account_empresa[OF sa] have "empresa a' = empresa a" by simp
  with st pre sa show "fst (sync_all wording nt clk st tr)
        = rs1 @ \<lparr>o_empresa = empresa a, o_date = ?d, o_valor = None,
                 o_orders = None, o_fraud_skipped = None, o_status = ''error'',
                 o_error = Some (py_str wording e)\<rparr>
            # fst (sync_accounts wording nt clk ?d post tr2)"
    by (simp add: sync_all_def sync_accounts_append error_outcome_def split: prod.splits)
qed

text \<open>
  A run over an unreachable account followed by \<open>example_account\<close>, under any wording of
  the interpreter's messages.
\<close>

theorem run_isolates_failures_witness:
  "\<forall>wording.
   fst (sync_all wording flaky_net example_clock
          \<lparr>ACCOUNTS = [bad_account, example_account], last_sync = None, last_results = []\<rparr> [])
     = [\<lparr>o_empresa = ''Outra'', o_date = ''2024-05-01'', o_valor = None, o_orders = None,
         o_fraud_skipped = None, o_status = ''error'', o_error = Some ''timed out''\<rparr>,
        \<lparr>o_empresa = ''Loja'', o_date = ''2024-05-01'', o_valor = Some 450, o_orders = Some 6,
         o_fraud_skipped = Some 0, o_status = ''synced'', o_error = None\<rparr>]"
  (is "\<forall>wording. ?P wording")
proof (intro allI)
  fix wording :: messages
  let ?st = "\<lparr>ACCOUNTS = [bad_account, example_account], last_sync = None, last_results = []\<rparr>"
  let ?a' = "example_account\<lparr>refresh_token := JStr ''RT1''\<rparr>"
  let ?tr1 = "[auth_request bad_account]"
  let ?tr2 = "?tr1 @ [auth_request example_account,
         save_request example_clock ''LOJA'' (JStr ''RT1'') (JStr ''AT1'') 2]"
  have bad: "process_account flaky_net example_clock ''2024-05-01'' bad_account []
      = (Inl (TransportError ''timed out''), bad_account, ?tr1)"
    by (simp add: process_account_def get_access_token_def send_def flaky_net_def
        auth_request_def bad_account_def)
  have tok: "get_access_token flaky_net example_clock example_account ?tr1
      = (Inr (JStr ''AT1''), ?a', ?tr2)"
    by (simp add: get_access_token_def send_def res_json_def save_token_to_db_def flaky_net_def
        example_net_def auth_request_def token_response_def save_request_def
        example_account_def bad_account_def numeral_2_eq_2)
  have rest: "fst (sync_accounts wording flaky_net example_clock ''2024-05-01''
                     [example_account] ?tr1)
      = [\<lparr>o_empresa = ''Loja'', o_date = ''2024-05-01'', o_valor = Some 450, o_orders = Some 6,
          o_fraud_skipped = Some 0, o_status = ''synced'', o_error = None\<rparr>]"
    using tok flaky_fetch [of ?a' "JStr ''AT1''" "''2024-05-01''" ?tr2]
    by (simp add: sync_account_def process_account_def upsert_faturamento_def send_def
        flaky_net_def example_net_def data_outcome_def example_account_def split: prod.splits)
  show "?P wording"
    using run_isolates_failures [where nt = flaky_net and clk = example_clock and st = ?st
        and tr = "[]" and pre = "[]" and a = bad_account and post = "[example_account]"
        and ?rs1.0 = "[]" and pre' = "[]" and ?tr1.0 = "[]"
        and e = "TransportError ''timed out''" and a' = bad_account and ?tr2.0 = ?tr1,
        THEN conjunct2, THEN conjunct2] bad rest
    by (simp add: example_clock_def py_str_def bad_account_def)
qed

end
